theory Spec2Isabelle
  imports Complex_Main "HOL-Library.Sublist"
begin

section \<open>Hazard text analysis, hotspot aggregation and risk assessment\<close>

text \<open>
  A shallow embedding of the three algorithms of the hazard monitoring server:
  \<^item> \<open>NLPEngine\<close> of \<open>server.js\<close> (\<open>analyzeText\<close>, \<open>processSocialMedia\<close>,
    \<open>calculateRelevance\<close>),
  \<^item> \<open>generateHotspots\<close> of \<open>server.js\<close>,
  \<^item> \<open>OceanMonitorAPI.assessRisk\<close> of \<open>ocean-api.js\<close>.

  Conventions of the embedding.
  \<^item> A JavaScript string is a \<open>string\<close>, read as a list of ASCII characters:
    \<open>toLowerCase\<close> changes the letters \<open>A\<close> to \<open>Z\<close> and nothing else.
  \<^item> The numbers of the text analysis are always finite; they are exact rationals, so the
    rounding of IEEE doubles is not part of the model.
  \<^item> The text given to \<open>analyzeText\<close> is an \<open>option\<close>: \<open>None\<close> is \<open>null\<close> or \<open>undefined\<close>,
    which the function treats alike. A coordinate of a report tells \<open>null\<close> from
    \<open>undefined\<close>, which arithmetic does not treat alike.
  \<^item> A thrown exception is the left summand of a result \<open>error + 'a\<close>.
\<close>

section \<open>The program\<close>

subsection \<open>Strings\<close>

datatype error = TypeError

definition toLowerChar :: "char \<Rightarrow> char" where
  "toLowerChar c =
     (case map_of (zip ''ABCDEFGHIJKLMNOPQRSTUVWXYZ'' ''abcdefghijklmnopqrstuvwxyz'') c of
        Some l \<Rightarrow> l
      | None \<Rightarrow> c)"

definition toLowerCase :: "string \<Rightarrow> string" where
  "toLowerCase s = map toLowerChar s"

text \<open>\<open>text.includes(keyword)\<close>: the keyword occurs at some position of the text.\<close>

fun str_includes :: "string \<Rightarrow> string \<Rightarrow> bool" where
  "str_includes [] kw = (kw = [])"
| "str_includes (c # cs) kw = (prefix kw (c # cs) \<or> str_includes cs kw)"

text \<open>
  \<open>(text.match(new RegExp(word, 'g')) || []).length\<close> for a word without regular
  expression metacharacters: the scan finds the leftmost occurrence, counts it, and goes
  on behind it, so the occurrences counted do not overlap. The empty pattern matches once
  at every position, the end included.
\<close>

function regexCount :: "string \<Rightarrow> string \<Rightarrow> nat" where
  "regexCount w [] = (if w = [] then 1 else 0)"
| "regexCount w (c # cs) =
     (if w = [] then Suc (regexCount w cs)
      else if prefix w (c # cs) then Suc (regexCount w (drop (length w) (c # cs)))
      else regexCount w cs)"
  by pat_completeness auto
termination
  by (relation "measure (\<lambda>(w, t). length t)") (auto simp: Suc_le_eq)

subsection \<open>NLPEngine\<close>

text \<open>
  The object that \<open>analyzeText\<close> returns. \<open>hazardType\<close> is a category or \<open>null\<close>. Its
  property \<open>keywords\<close> is the field \<open>keywords'\<close> here (the plain name is reserved).
\<close>

record analysis =
  hazardType :: "string option"
  urgencyLevel :: rat
  keywords' :: "string list"
  sentiment :: string
  confidence :: rat

text \<open>
  \<open>this.hazardKeywords\<close>: an object literal, enumerated by \<open>Object.entries\<close> in the order
  in which its keys are written.
\<close>

definition hazardKeywords :: "(string \<times> string list) list" where
  "hazardKeywords =
     [(''flood'', [''flood'', ''flooding'', ''water'', ''rain'', ''overflow'', ''submerged'']),
      (''storm'', [''storm'', ''cyclone'', ''hurricane'', ''wind'', ''tornado'']),
      (''fire'', [''fire'', ''burning'', ''smoke'', ''flames'', ''wildfire'']),
      (''earthquake'', [''earthquake'', ''tremor'', ''shake'', ''seismic'']),
      (''tsunami'', [''tsunami'', ''wave'', ''surge'', ''coastal'']),
      (''accident'', [''accident'', ''crash'', ''collision'', ''emergency''])]"

definition urgencyKeywords :: "string list" where
  "urgencyKeywords = [''urgent'', ''emergency'', ''critical'', ''immediate'', ''help'', ''rescue'']"

definition negativeWords :: "string list" where
  "negativeWords = [''danger'', ''disaster'', ''severe'', ''critical'', ''emergency'']"

definition positiveWords :: "string list" where
  "positiveWords = [''safe'', ''help'', ''rescue'', ''support'']"

text \<open>One round of the loop over the hazard categories.\<close>

definition detectHazard :: "string \<Rightarrow> string \<times> string list \<Rightarrow> analysis \<Rightarrow> analysis" where
  "detectHazard lowerText entry a =
     (let matches = filter (str_includes lowerText) (snd entry)
      in if length matches > 0
         then a\<lparr>hazardType := Some (fst entry),
                keywords' := keywords' a @ matches,
                confidence := confidence a + of_nat (length matches) * (2 / 10)\<rparr>
         else a)"

definition wordCount :: "string list \<Rightarrow> string \<Rightarrow> nat" where
  "wordCount ws lowerText = foldl (\<lambda>count word. count + regexCount word lowerText) 0 ws"

text \<open>The body of \<open>analyzeText\<close> behind \<open>text.toLowerCase()\<close>, the one call that can throw.\<close>

definition analyzeLower :: "string \<Rightarrow> analysis" where
  "analyzeLower lowerText =
     (let a0 = \<lparr>hazardType = None, urgencyLevel = 0, keywords' = [],
                sentiment = ''neutral'', confidence = 0\<rparr>;
          a1 = fold (detectHazard lowerText) hazardKeywords a0;
          urgencyMatches = filter (str_includes lowerText) urgencyKeywords;
          a2 = a1\<lparr>urgencyLevel := min (of_nat (length urgencyMatches) * (3 / 10)) 1\<rparr>;
          a3 = a2\<lparr>keywords' := keywords' a2 @ urgencyMatches\<rparr>;
          negCount = wordCount negativeWords lowerText;
          posCount = wordCount positiveWords lowerText;
          a4 = (if negCount > posCount then a3\<lparr>sentiment := ''negative''\<rparr>
                else if posCount > negCount then a3\<lparr>sentiment := ''positive''\<rparr>
                else a3)
      in a4\<lparr>confidence := min (confidence a4) 1\<rparr>)"

text \<open>
  \<open>analyzeText(text)\<close>. Its first statement reads \<open>text.toLowerCase()\<close>, which throws a
  \<open>TypeError\<close> when \<open>text\<close> is \<open>null\<close> or \<open>undefined\<close>.
\<close>

definition analyzeText :: "string option \<Rightarrow> error + analysis" where
  "analyzeText text =
     (case text of
        None \<Rightarrow> Inl TypeError
      | Some t \<Rightarrow> Inr (analyzeLower (toLowerCase t)))"

subsection \<open>Social media posts\<close>

text \<open>
  A post as \<open>/api/social/feed\<close> builds it. \<open>processSocialMedia\<close> copies every property of
  the post (\<open>...post\<close>) and adds \<open>analysis\<close> and \<open>relevanceScore\<close>.
\<close>

record post =
  platform :: string
  content :: string
  engagement :: rat

record analyzedPost = post +
  analysis :: analysis
  relevanceScore :: rat

definition calculateRelevance :: "post \<Rightarrow> error + rat" where
  "calculateRelevance p =
     (case analyzeText (Some (content p)) of
        Inl e \<Rightarrow> Inl e
      | Inr a \<Rightarrow> Inr (confidence a * (1 + engagement p / 100) * (urgencyLevel a + 5 / 10)))"

text \<open>The function mapped over the posts: both calls can throw, the first one first.\<close>

definition analyzePost :: "post \<Rightarrow> error + analyzedPost" where
  "analyzePost p =
     (case analyzeText (Some (content p)) of
        Inl e \<Rightarrow> Inl e
      | Inr a \<Rightarrow>
          (case calculateRelevance p of
             Inl e \<Rightarrow> Inl e
           | Inr r \<Rightarrow> Inr (post.extend p \<lparr>analysis = a, relevanceScore = r\<rparr>)))"

text \<open>\<open>Array.prototype.map\<close> with a callback that may throw: the first exception ends it.\<close>

fun mapE :: "('a \<Rightarrow> error + 'b) \<Rightarrow> 'a list \<Rightarrow> error + 'b list" where
  "mapE f [] = Inr []"
| "mapE f (x # xs) =
     (case f x of
        Inl e \<Rightarrow> Inl e
      | Inr y \<Rightarrow> (case mapE f xs of Inl e \<Rightarrow> Inl e | Inr ys \<Rightarrow> Inr (y # ys)))"

definition processSocialMedia :: "post list \<Rightarrow> error + analyzedPost list" where
  "processSocialMedia posts =
     (case mapE analyzePost posts of
        Inl e \<Rightarrow> Inl e
      | Inr analyzed \<Rightarrow> Inr (filter (\<lambda>p. confidence (analysis p) > 3 / 10) analyzed))"

text \<open>The three posts of \<open>/api/social/feed\<close>.\<close>

definition mockPosts :: "post list" where
  "mockPosts =
     [\<lparr>platform = ''Twitter'',
       content = ''Heavy rainfall in Mumbai causing flooding #MumbaiRains #Emergency'',
       engagement = 150\<rparr>,
      \<lparr>platform = ''Facebook'',
       content = ''Cyclone warning issued for Odisha coast. Please stay safe!'',
       engagement = 89\<rparr>,
      \<lparr>platform = ''Instagram'',
       content = ''Forest fire spreading near Dehradun. Authorities responding.'',
       engagement = 67\<rparr>]"

subsection \<open>Numbers of the hotspot generator\<close>

text \<open>
  A JavaScript number is \<open>NaN\<close>, an infinity or a finite value. Finite values are exact
  rationals: the rounding of IEEE doubles and the sign of zero are not part of the model.
\<close>

datatype jsnum = NaN | NegInf | Fin rat | PosInf

text \<open>
  A coordinate of a report: a number, \<open>null\<close>, or \<open>undefined\<close> when the report has no such
  property. Coordinates that are strings are outside the model. \<open>ToNumber\<close>, which
  \<open>*\<close> applies to its operands and \<open>+\<close> to the operands of a sum of a number and one of
  these values, makes \<open>NaN\<close> of \<open>undefined\<close> and 0 of \<open>null\<close>.
\<close>

datatype coordinate = CoordUndefined | CoordNull | CoordNumber jsnum

fun toNumber :: "coordinate \<Rightarrow> jsnum" where
  "toNumber CoordUndefined = NaN"
| "toNumber CoordNull = Fin 0"
| "toNumber (CoordNumber x) = x"

fun jsAdd :: "jsnum \<Rightarrow> jsnum \<Rightarrow> jsnum" where
  "jsAdd NaN y = NaN"
| "jsAdd x NaN = NaN"
| "jsAdd (Fin a) (Fin b) = Fin (a + b)"
| "jsAdd PosInf NegInf = NaN"
| "jsAdd NegInf PosInf = NaN"
| "jsAdd (Fin a) y = y"
| "jsAdd x y = x"

definition jsSign :: "jsnum \<Rightarrow> int" where
  "jsSign x =
     (case x of
        NaN \<Rightarrow> 0
      | NegInf \<Rightarrow> - 1
      | Fin a \<Rightarrow> (if a < 0 then - 1 else if a = 0 then 0 else 1)
      | PosInf \<Rightarrow> 1)"

fun jsMul :: "jsnum \<Rightarrow> jsnum \<Rightarrow> jsnum" where
  "jsMul NaN y = NaN"
| "jsMul x NaN = NaN"
| "jsMul (Fin a) (Fin b) = Fin (a * b)"
| "jsMul x y =
     (if jsSign x * jsSign y = 0 then NaN
      else if jsSign x * jsSign y > 0 then PosInf else NegInf)"

text \<open>Division; a zero divisor is the positive zero.\<close>

fun jsDiv :: "jsnum \<Rightarrow> jsnum \<Rightarrow> jsnum" where
  "jsDiv NaN y = NaN"
| "jsDiv x NaN = NaN"
| "jsDiv (Fin a) (Fin b) =
     (if b \<noteq> 0 then Fin (a / b)
      else if a = 0 then NaN else if a > 0 then PosInf else NegInf)"
| "jsDiv (Fin a) y = Fin 0"
| "jsDiv x (Fin b) = (if (b \<ge> 0) = (x = PosInf) then PosInf else NegInf)"
| "jsDiv x y = NaN"

fun mathFloor :: "jsnum \<Rightarrow> jsnum" where
  "mathFloor (Fin a) = Fin (of_int \<lfloor>a\<rfloor>)"
| "mathFloor x = x"

text \<open>
  \<open>Math.max(...xs)\<close>: \<open>-Infinity\<close> for no argument, \<open>NaN\<close> as soon as one argument is. The
  spread passes every element as an argument of one call; the bound that an engine puts on
  the number of arguments of a call is not part of the model.
\<close>

fun jsMax :: "jsnum \<Rightarrow> jsnum \<Rightarrow> jsnum" where
  "jsMax NaN y = NaN"
| "jsMax x NaN = NaN"
| "jsMax PosInf y = PosInf"
| "jsMax x PosInf = PosInf"
| "jsMax NegInf y = y"
| "jsMax x NegInf = x"
| "jsMax (Fin a) (Fin b) = Fin (max a b)"

definition mathMax :: "jsnum list \<Rightarrow> jsnum" where
  "mathMax xs = fold (\<lambda>x m. jsMax m x) xs NegInf"

text \<open>
  The decimal numeral of an integer, and \<open>Number::toString\<close> on the values that
  \<open>Math.floor\<close> returns: \<open>NaN\<close>, the infinities and the integers (written without an
  exponent, as JavaScript does below \<open>10^21\<close>).
\<close>

definition digitChar :: "nat \<Rightarrow> char" where
  "digitChar d = ''0123456789'' ! d"

fun showNat :: "nat \<Rightarrow> string" where
  "showNat n = (if n < 10 then [digitChar n] else showNat (n div 10) @ [digitChar (n mod 10)])"

declare showNat.simps [simp del]

definition showInt :: "int \<Rightarrow> string" where
  "showInt i = (if i < 0 then CHR ''-'' # showNat (nat (- i)) else showNat (nat i))"

fun numberToString :: "jsnum \<Rightarrow> string" where
  "numberToString NaN = ''NaN''"
| "numberToString PosInf = ''Infinity''"
| "numberToString NegInf = ''-Infinity''"
| "numberToString (Fin a) = showInt \<lfloor>a\<rfloor>"

subsection \<open>\<open>parseInt\<close>\<close>

text \<open>
  \<open>parseInt(v)\<close> without a radix: \<open>ToString\<close> of the argument, leading white space skipped,
  an optional sign, \<open>0x\<close> or \<open>0X\<close> for radix 16, then the longest run of digits of the
  radix; \<open>NaN\<close> (here \<open>None\<close>) when that run is empty. The argument is a string or missing.
\<close>

definition isWhiteSpace :: "char \<Rightarrow> bool" where
  "isWhiteSpace c =
     (c \<in> set [CHR 0x09, CHR 0x0A, CHR 0x0B, CHR 0x0C, CHR 0x0D, CHR 0x20])"

definition digitValue :: "char \<Rightarrow> nat option" where
  "digitValue c =
     map_of
       [(CHR ''0'', 0), (CHR ''1'', 1), (CHR ''2'', 2), (CHR ''3'', 3), (CHR ''4'', 4),
        (CHR ''5'', 5), (CHR ''6'', 6), (CHR ''7'', 7), (CHR ''8'', 8), (CHR ''9'', 9),
        (CHR ''a'', 10), (CHR ''b'', 11), (CHR ''c'', 12), (CHR ''d'', 13), (CHR ''e'', 14),
        (CHR ''f'', 15), (CHR ''g'', 16), (CHR ''h'', 17), (CHR ''i'', 18), (CHR ''j'', 19),
        (CHR ''k'', 20), (CHR ''l'', 21), (CHR ''m'', 22), (CHR ''n'', 23), (CHR ''o'', 24),
        (CHR ''p'', 25), (CHR ''q'', 26), (CHR ''r'', 27), (CHR ''s'', 28), (CHR ''t'', 29),
        (CHR ''u'', 30), (CHR ''v'', 31), (CHR ''w'', 32), (CHR ''x'', 33), (CHR ''y'', 34),
        (CHR ''z'', 35)]
       (toLowerChar c)"

definition isRadixDigit :: "nat \<Rightarrow> char \<Rightarrow> bool" where
  "isRadixDigit R c = (case digitValue c of None \<Rightarrow> False | Some d \<Rightarrow> d < R)"

definition radixValue :: "nat \<Rightarrow> string \<Rightarrow> int" where
  "radixValue R Z =
     foldl (\<lambda>acc c. acc * int R + (case digitValue c of None \<Rightarrow> 0 | Some d \<Rightarrow> int d)) 0 Z"

definition parseInt :: "string option \<Rightarrow> int option" where
  "parseInt v =
     (let inputString = (case v of None \<Rightarrow> ''undefined'' | Some s \<Rightarrow> s);
          S = dropWhile isWhiteSpace inputString;
          sign = (if take 1 S = ''-'' then - 1 else 1);
          S1 = (if take 1 S = ''-'' \<or> take 1 S = ''+'' then drop 1 S else S);
          R = (if take 2 S1 = ''0x'' \<or> take 2 S1 = ''0X'' then 16 else 10);
          S2 = (if R = 16 then drop 2 S1 else S1);
          Z = takeWhile (isRadixDigit R) S2
      in if Z = [] then None else Some (sign * radixValue R Z))"

subsection \<open>Reports and hotspots\<close>

text \<open>
  The properties of a report that \<open>generateHotspots\<close> reads. \<open>severity\<close> is a string.
  \<open>rtype\<close> is the property \<open>type\<close>. \<open>timestamp\<close> holds the time value
  \<open>new Date(report.timestamp).getTime()\<close>, in milliseconds, \<open>None\<close> for an invalid date
  (\<open>NaN\<close>). \<open>peopleAffected\<close> is a form field: a string, or \<open>None\<close> when the report has no
  such property.

  The properties of a hotspot are \<open>id\<close>, \<open>latitude\<close>, \<open>longitude\<close>, \<open>reportCount\<close>,
  \<open>severity\<close>, \<open>types\<close>, \<open>lastUpdate\<close> and \<open>affectedPeople\<close>; those whose names a report
  has too carry the prefix \<open>h_\<close>.
\<close>

record report =
  latitude :: coordinate
  longitude :: coordinate
  severity :: string
  rtype :: string
  timestamp :: "int option"
  peopleAffected :: "string option"

record hotspot =
  h_id :: string
  h_latitude :: jsnum
  h_longitude :: jsnum
  reportCount :: nat
  h_severity :: string
  types :: "string list"
  lastUpdate :: jsnum
  affectedPeople :: int

text \<open>The module's variables \<open>reports\<close> and \<open>hotspots\<close>.\<close>

record server =
  reports :: "report list"
  hotspots :: "hotspot list"

definition timeWindow :: int where
  "timeWindow = 24 * 60 * 60 * 1000"

text \<open>\<open>now - new Date(report.timestamp).getTime() < timeWindow\<close>, false on \<open>NaN\<close>.\<close>

definition inWindow :: "int \<Rightarrow> report \<Rightarrow> bool" where
  "inWindow now r = (case timestamp r of None \<Rightarrow> False | Some t \<Rightarrow> now - t < timeWindow)"

definition cellKey :: "report \<Rightarrow> string" where
  "cellKey r =
     numberToString (mathFloor (jsMul (toNumber (latitude r)) (Fin 10)))
       @ ''_'' @ numberToString (mathFloor (jsMul (toNumber (longitude r)) (Fin 10)))"

text \<open>
  \<open>locationClusters\<close> is an object used as a dictionary. Its keys are not array indices, so
  \<open>Object.entries\<close> lists them in the order of their first insertion: an association list
  that keeps that order.
\<close>

fun pushReport :: "string \<Rightarrow> report \<Rightarrow> (string \<times> report list) list \<Rightarrow> (string \<times> report list) list"
  where
  "pushReport key r [] = [(key, [r])]"
| "pushReport key r ((k, rs) # clusters) =
     (if k = key then (k, rs @ [r]) # clusters else (k, rs) # pushReport key r clusters)"

definition groupReports :: "report list \<Rightarrow> (string \<times> report list) list" where
  "groupReports rs = fold (\<lambda>r clusters. pushReport (cellKey r) r clusters) rs []"

text \<open>The dictionary that the first statement of \<open>generateHotspots\<close> fills.\<close>

definition locationClusters :: "int \<Rightarrow> server \<Rightarrow> (string \<times> report list) list" where
  "locationClusters now st = groupReports (filter (inWindow now) (reports st))"

definition weights :: "(string \<times> int) list" where
  "weights = [(''critical'', 4), (''high'', 3), (''medium'', 2), (''low'', 1)]"

text \<open>
  \<open>weights[r.severity]\<close> reads a property of an object literal: one of its four own
  properties, or a property that every object inherits from \<open>Object.prototype\<close>, or
  \<open>undefined\<close>. The inherited values are functions, and an object for \<open>__proto__\<close>.
\<close>

definition inheritedKeys :: "string list" where
  "inheritedKeys =
     [''constructor'', ''__defineGetter__'', ''__defineSetter__'', ''hasOwnProperty'',
      ''__lookupGetter__'', ''__lookupSetter__'', ''isPrototypeOf'', ''propertyIsEnumerable'',
      ''toString'', ''valueOf'', ''__proto__'', ''toLocaleString'']"

datatype weight = Weight int | Inherited

text \<open>
  \<open>weights[r.severity] || 1\<close>: no weight of the table is zero and every inherited value is
  truthy, so 1 stands for \<open>undefined\<close> only.
\<close>

definition severityWeight :: "string \<Rightarrow> weight" where
  "severityWeight s =
     (case map_of weights s of
        Some w \<Rightarrow> Weight w
      | None \<Rightarrow> if s \<in> set inheritedKeys then Inherited else Weight 1)"

text \<open>
  The accumulator of the reduction is a number until an inherited value is added to it:
  \<open>+\<close> then joins the texts of the two, and of everything added later. \<open>ScoreText\<close> is such
  a string; it holds the text of a function or of an object, so it reads as no number.
\<close>

datatype score = Score int | ScoreText

fun addWeight :: "score \<Rightarrow> weight \<Rightarrow> score" where
  "addWeight (Score n) (Weight w) = Score (n + w)"
| "addWeight (Score n) Inherited = ScoreText"
| "addWeight ScoreText w = ScoreText"

definition severityScore :: "report list \<Rightarrow> score" where
  "severityScore rs = foldl (\<lambda>score r. addWeight score (severityWeight (severity r))) (Score 0) rs"

text \<open>
  \<open>severityScore > 10 ? 'critical' : severityScore > 6 ? 'high' : 'medium'\<close>. A string that
  reads as no number compares as \<open>NaN\<close>: both tests are false.
\<close>

definition severityCategory :: "score \<Rightarrow> string" where
  "severityCategory sc =
     (case sc of
        Score n \<Rightarrow> if n > 10 then ''critical'' else if n > 6 then ''high'' else ''medium''
      | ScoreText \<Rightarrow> ''medium'')"

text \<open>\<open>[...new Set(xs)]\<close>: the distinct elements in the order of their first occurrence.\<close>

definition uniqueValues :: "'a list \<Rightarrow> 'a list" where
  "uniqueValues xs = foldl (\<lambda>seen x. if x \<in> set seen then seen else seen @ [x]) [] xs"

text \<open>\<open>parseInt(r.peopleAffected) || 0\<close>.\<close>

definition peopleOf :: "report \<Rightarrow> int" where
  "peopleOf r = (case parseInt (peopleAffected r) of None \<Rightarrow> 0 | Some n \<Rightarrow> n)"

definition makeHotspot :: "string \<times> report list \<Rightarrow> hotspot" where
  "makeHotspot entry =
     (let key = fst entry;
          clusterReports = snd entry;
          avgLat = jsDiv (foldl (\<lambda>sum r. jsAdd sum (toNumber (latitude r))) (Fin 0) clusterReports)
                     (Fin (of_nat (length clusterReports)));
          avgLng = jsDiv (foldl (\<lambda>sum r. jsAdd sum (toNumber (longitude r))) (Fin 0) clusterReports)
                     (Fin (of_nat (length clusterReports)));
          score = severityScore clusterReports
      in \<lparr>h_id = key,
          h_latitude = avgLat,
          h_longitude = avgLng,
          reportCount = length clusterReports,
          h_severity = severityCategory score,
          types = uniqueValues (map rtype clusterReports),
          lastUpdate =
            mathMax (map (\<lambda>r. case timestamp r of None \<Rightarrow> NaN | Some t \<Rightarrow> Fin (of_int t))
                       clusterReports),
          affectedPeople = foldl (\<lambda>sum r. sum + peopleOf r) 0 clusterReports\<rparr>)"

text \<open>
  \<open>generateHotspots()\<close> reads \<open>reports\<close> and the clock (\<open>now\<close>, the value of \<open>Date.now()\<close>)
  and assigns \<open>hotspots\<close>.
\<close>

definition generateHotspots :: "int \<Rightarrow> server \<Rightarrow> server" where
  "generateHotspots now st =
     st\<lparr>hotspots :=
          map makeHotspot
            (filter (\<lambda>entry. length (snd entry) \<ge> 2) (locationClusters now st))\<rparr>"

subsection \<open>OceanMonitorAPI: risk assessment\<close>

text \<open>
  The numbers of the risk model are real numbers, and \<open>Math.sin\<close>, \<open>Math.cos\<close>,
  \<open>Math.sqrt\<close> and \<open>Math.atan2\<close> are the functions of analysis.
\<close>

record position =
  lat :: real
  lng :: real

text \<open>
  The properties \<open>type\<close>, \<open>severity\<close> and \<open>location\<close> of a hazard, the ones that
  \<open>assessRisk\<close> reads, and the object that it returns, whose property \<open>timestamp\<close> is
  \<open>ra_timestamp\<close> here.
\<close>

record hazard =
  hz_type :: string
  hz_severity :: string
  hz_location :: position

record riskFactors =
  storm :: real
  waves :: real
  wind :: real
  visibility :: real

record riskAssessment =
  overallRisk :: real
  riskLevel :: string
  factors :: riskFactors
  recommendations :: "string list"
  ra_timestamp :: string

text \<open>The field \<open>this.hazards\<close> of the monitor, the one field that \<open>assessRisk\<close> reads.\<close>

record oceanMonitor =
  hazards :: "hazard list"

text \<open>A value of a request body, for the argument \<open>timeframe\<close>.\<close>

datatype jsvalue = JUndefined | JNull | JBool bool | JNum real | JStr string

definition atan2 :: "real \<Rightarrow> real \<Rightarrow> real" where
  "atan2 y x =
     (if x > 0 then arctan (y / x)
      else if x < 0 \<and> y \<ge> 0 then arctan (y / x) + pi
      else if x < 0 then arctan (y / x) - pi
      else if y > 0 then pi / 2
      else if y < 0 then - pi / 2
      else 0)"

definition calculateDistance :: "position \<Rightarrow> position \<Rightarrow> real" where
  "calculateDistance pos1 pos2 =
     (let R = 6371;
          dLat = (lat pos2 - lat pos1) * pi / 180;
          dLon = (lng pos2 - lng pos1) * pi / 180;
          a = sin (dLat / 2) * sin (dLat / 2)
              + cos (lat pos1 * pi / 180) * cos (lat pos2 * pi / 180)
                * sin (dLon / 2) * sin (dLon / 2)
      in R * 2 * atan2 (sqrt a) (sqrt (1 - a)))"

text \<open>The body of \<open>this.hazards.forEach\<close>: the \<open>switch\<close> on the type of the hazard.\<close>

definition addHazard :: "position \<Rightarrow> hazard \<Rightarrow> riskFactors \<Rightarrow> riskFactors" where
  "addHazard location hazard riskFactors =
     (let distance = calculateDistance location (hz_location hazard);
          proximity = max 0 (1 - distance / 100)
      in if hz_type hazard = ''storm''
           then riskFactors\<lparr>storm := storm riskFactors
                  + proximity * (if hz_severity hazard = ''high'' then 8 / 10 else 5 / 10)\<rparr>
         else if hz_type hazard = ''waves''
           then riskFactors\<lparr>waves := waves riskFactors
                  + proximity * (if hz_severity hazard = ''high'' then 7 / 10 else 4 / 10)\<rparr>
         else if hz_type hazard = ''wind''
           then riskFactors\<lparr>wind := wind riskFactors + proximity * (3 / 10)\<rparr>
         else if hz_type hazard = ''visibility''
           then riskFactors\<lparr>visibility := visibility riskFactors + proximity * (2 / 10)\<rparr>
         else riskFactors)"

definition generateRecommendations :: "real \<Rightarrow> string list" where
  "generateRecommendations level =
     (if level > 7 / 10 then
        [''Avoid all marine activities'',
         ''Small vessels should return to harbor immediately'',
         ''Monitor weather updates continuously'',
         ''Prepare emergency supplies'']
      else if level > 4 / 10 then
        [''Exercise caution in marine activities'',
         ''Monitor weather conditions closely'',
         ''Ensure safety equipment is ready'',
         ''Consider postponing non-essential trips'']
      else
        [''Normal marine activities permitted'',
         ''Standard safety precautions advised'',
         ''Monitor routine weather updates''])"

text \<open>
  \<open>assessRisk(location, timeframe = 24)\<close>. The default value replaces an argument that is
  \<open>undefined\<close>. \<open>clock\<close> is the string that \<open>new Date().toISOString()\<close> returns at the call.
\<close>

definition assessRisk :: "oceanMonitor \<Rightarrow> position \<Rightarrow> jsvalue \<Rightarrow> string \<Rightarrow> riskAssessment" where
  "assessRisk api location timeframe clock =
     (let timeframe = (case timeframe of JUndefined \<Rightarrow> JNum 24 | v \<Rightarrow> v);
          riskFactors = fold (addHazard location) (hazards api)
                          \<lparr>storm = 0, waves = 0, wind = 0, visibility = 0\<rparr>;
          overall =
            min 1 (foldl (\<lambda>a b. a + b) 0
                     [storm riskFactors, waves riskFactors, wind riskFactors,
                      visibility riskFactors])
      in \<lparr>overallRisk = overall,
          riskLevel = (if overall > 7 / 10 then ''high''
                       else if overall > 4 / 10 then ''medium'' else ''low''),
          factors = riskFactors,
          recommendations = generateRecommendations overall,
          ra_timestamp = clock\<rparr>)"

section \<open>Notions used to state the properties\<close>

subsection \<open>Categories that a text mentions\<close>

definition keywordsOf :: "string \<Rightarrow> string list" where
  "keywordsOf category = (case map_of hazardKeywords category of None \<Rightarrow> [] | Some kws \<Rightarrow> kws)"

definition mentions :: "string \<Rightarrow> string \<Rightarrow> bool" where
  "mentions lowerText category = list_ex (str_includes lowerText) (keywordsOf category)"

text \<open>The categories with at least one keyword in the text, in the enumeration order.\<close>

definition matchedCategories :: "string \<Rightarrow> string list" where
  "matchedCategories lowerText = filter (mentions lowerText) (map fst hazardKeywords)"

subsection \<open>Occurrences of a word in a text\<close>

text \<open>The number of positions of the text at which the word starts.\<close>

fun occurrences :: "string \<Rightarrow> string \<Rightarrow> nat" where
  "occurrences w [] = 0"
| "occurrences w (c # cs) = (if prefix w (c # cs) then 1 else 0) + occurrences w cs"

text \<open>A word is borderless when none of its proper suffixes is one of its prefixes.\<close>

definition borderless :: "string \<Rightarrow> bool" where
  "borderless w = list_all (\<lambda>k. \<not> prefix (drop k w) w) [1..<length w]"

definition negCount :: "string \<Rightarrow> nat" where
  "negCount lowerText = sum_list (map (\<lambda>w. occurrences w lowerText) negativeWords)"

definition posCount :: "string \<Rightarrow> nat" where
  "posCount lowerText = sum_list (map (\<lambda>w. occurrences w lowerText) positiveWords)"

subsection \<open>Whole-word counting, as the specification words the sentiment rule\<close>

text \<open>
  The specification's reading of the sentiment rule: the text is cut into words, the
  maximal runs of letters, digits and underscores (the \<open>\w+\<close> of the server's own
  \<open>extractKeywordFrequency\<close>), and a sentiment word is counted once for every word of the
  text equal to it.
\<close>

definition spec_isWordChar :: "char \<Rightarrow> bool" where
  "spec_isWordChar c =
     (c \<in> set ''abcdefghijklmnopqrstuvwxyzABCDEFGHIJKLMNOPQRSTUVWXYZ0123456789_'')"

fun spec_words :: "string \<Rightarrow> string \<Rightarrow> string list" where
  "spec_words cur [] = (if cur = [] then [] else [cur])"
| "spec_words cur (c # cs) =
     (if spec_isWordChar c then spec_words (cur @ [c]) cs
      else (if cur = [] then [] else [cur]) @ spec_words [] cs)"

definition spec_wholeWordCount :: "string list \<Rightarrow> string \<Rightarrow> nat" where
  "spec_wholeWordCount ws lowerText =
     sum_list (map (\<lambda>w. count_list (spec_words [] lowerText) w) ws)"

definition spec_sentiment :: "string \<Rightarrow> string" where
  "spec_sentiment lowerText =
     (if spec_wholeWordCount negativeWords lowerText > spec_wholeWordCount positiveWords lowerText
        then ''negative''
      else if spec_wholeWordCount positiveWords lowerText > spec_wholeWordCount negativeWords lowerText
        then ''positive''
      else ''neutral'')"

subsection \<open>A post with its analysis\<close>

text \<open>What \<open>processSocialMedia\<close> makes of a post whose text is analysed without an exception.\<close>

definition augment :: "post \<Rightarrow> analyzedPost" where
  "augment p =
     (let a = analyzeLower (toLowerCase (content p))
      in post.extend p \<lparr>analysis = a,
           relevanceScore = confidence a * (1 + engagement p / 100) * (urgencyLevel a + 5 / 10)\<rparr>)"

subsection \<open>Cells of the hotspot grid\<close>

text \<open>The in-window reports of the cell with a given key, in the order of \<open>reports\<close>.\<close>

definition cellMembers :: "int \<Rightarrow> server \<Rightarrow> string \<Rightarrow> report list" where
  "cellMembers now st k = filter (\<lambda>r. inWindow now r \<and> cellKey r = k) (reports st)"

text \<open>The pair \<open>Math.floor(latitude * 10)\<close>, \<open>Math.floor(longitude * 10)\<close> of a report.\<close>

definition cellIndex :: "report \<Rightarrow> jsnum \<times> jsnum" where
  "cellIndex r =
     (mathFloor (jsMul (toNumber (latitude r)) (Fin 10)),
      mathFloor (jsMul (toNumber (longitude r)) (Fin 10)))"

text \<open>
  The specification's reading of the cell: \<open>latitude * 10\<close> and \<open>longitude * 10\<close> truncated
  to integers, that is, rounded towards zero.
\<close>

fun spec_truncate :: "jsnum \<Rightarrow> jsnum" where
  "spec_truncate (Fin a) = Fin (of_int (if a \<ge> 0 then \<lfloor>a\<rfloor> else \<lceil>a\<rceil>))"
| "spec_truncate x = x"

definition spec_cellIndex :: "report \<Rightarrow> jsnum \<times> jsnum" where
  "spec_cellIndex r =
     (spec_truncate (jsMul (toNumber (latitude r)) (Fin 10)),
      spec_truncate (jsMul (toNumber (longitude r)) (Fin 10)))"

subsection \<open>Example reports\<close>

text \<open>
  Two critical reports from the same place, a lone report, a report without coordinates
  (sent twice), a report whose coordinates are \<open>null\<close>, a report older than the window, and
  two reports on either side of the equator. The clock reads \<open>exampleNow\<close>.
\<close>

definition exampleNow :: int where
  "exampleNow = 1700000000000"

definition mumbaiA :: report where
  "mumbaiA = \<lparr>latitude = CoordNumber (Fin (1907 / 100)),
      longitude = CoordNumber (Fin (7287 / 100)),
      severity = ''critical'', rtype = ''flood'', timestamp = Some 1699990000000,
      peopleAffected = Some ''12''\<rparr>"

definition mumbaiB :: report where
  "mumbaiB = mumbaiA\<lparr>timestamp := Some 1699995000000, peopleAffected := Some ''many''\<rparr>"

definition mumbaiOld :: report where
  "mumbaiOld = mumbaiA\<lparr>timestamp := Some 1699900000000\<rparr>"

definition chennai :: report where
  "chennai = \<lparr>latitude = CoordNumber (Fin (1308 / 100)),
      longitude = CoordNumber (Fin (8027 / 100)),
      severity = ''high'', rtype = ''storm'', timestamp = Some 1699990000000,
      peopleAffected = None\<rparr>"

definition noPlace :: report where
  "noPlace = \<lparr>latitude = CoordUndefined, longitude = CoordUndefined,
      severity = ''low'', rtype = ''fire'', timestamp = Some 1699990000000,
      peopleAffected = Some ''3''\<rparr>"

definition nullPlace :: report where
  "nullPlace = noPlace\<lparr>latitude := CoordNull, longitude := CoordNull\<rparr>"

definition southOfEquator :: report where
  "southOfEquator = \<lparr>latitude = CoordNumber (Fin (- 1 / 16)),
      longitude = CoordNumber (Fin 0),
      severity = ''medium'', rtype = ''storm'', timestamp = Some 1699990000000,
      peopleAffected = None\<rparr>"

definition northOfEquator :: report where
  "northOfEquator = southOfEquator\<lparr>latitude := CoordNumber (Fin (1 / 16))\<rparr>"

definition exampleServer :: server where
  "exampleServer =
     \<lparr>reports = [mumbaiA, chennai, noPlace, mumbaiOld, mumbaiB, noPlace], hotspots = []\<rparr>"

definition equatorServer :: server where
  "equatorServer = \<lparr>reports = [southOfEquator, northOfEquator], hotspots = []\<rparr>"

section \<open>Properties of the text analysis\<close>

subsection \<open>The loop over the hazard categories\<close>

lemma detectHazard_fields:
  "urgencyLevel (detectHazard lt e a) = urgencyLevel a"
  "sentiment (detectHazard lt e a) = sentiment a"
  "hazardType (detectHazard lt e a) =
     (if list_ex (str_includes lt) (snd e) then Some (fst e) else hazardType a)"
  "keywords' (detectHazard lt e a) = keywords' a @ filter (str_includes lt) (snd e)"
  "confidence (detectHazard lt e a) =
     confidence a + of_nat (length (filter (str_includes lt) (snd e))) * (2 / 10)"
  by (simp_all add: detectHazard_def Let_def list_ex_iff filter_empty_conv)

lemma fold_detectHazard_hazardType:
  "hazardType (fold (detectHazard lt) es a) =
     (case filter (\<lambda>e. list_ex (str_includes lt) (snd e)) es of
        [] \<Rightarrow> hazardType a
      | m # ms \<Rightarrow> Some (fst (last (m # ms))))"
  by (induction es arbitrary: a) (simp_all add: detectHazard_fields split: list.splits)

lemma fold_detectHazard_keywords:
  "keywords' (fold (detectHazard lt) es a) =
     keywords' a @ concat (map (\<lambda>e. filter (str_includes lt) (snd e)) es)"
  by (induction es arbitrary: a) (simp_all add: detectHazard_fields)

lemma fold_detectHazard_confidence:
  "confidence (fold (detectHazard lt) es a) =
     confidence a + of_nat (length (concat (map (\<lambda>e. filter (str_includes lt) (snd e)) es))) * (2 / 10)"
  by (induction es arbitrary: a) (simp_all add: detectHazard_fields algebra_simps)

lemma fold_detectHazard_other:
  "urgencyLevel (fold (detectHazard lt) es a) = urgencyLevel a"
  "sentiment (fold (detectHazard lt) es a) = sentiment a"
  by (induction es arbitrary: a) (simp_all add: detectHazard_fields)

lemma analyzeLower_fields:
  "hazardType (analyzeLower lt) =
     (case filter (\<lambda>e. list_ex (str_includes lt) (snd e)) hazardKeywords of
        [] \<Rightarrow> None
      | m # ms \<Rightarrow> Some (fst (last (m # ms))))"
  "keywords' (analyzeLower lt) =
     concat (map (\<lambda>e. filter (str_includes lt) (snd e)) hazardKeywords)
       @ filter (str_includes lt) urgencyKeywords"
  "confidence (analyzeLower lt) =
     min (of_nat (length (concat (map (\<lambda>e. filter (str_includes lt) (snd e)) hazardKeywords))) * (2 / 10)) 1"
  "urgencyLevel (analyzeLower lt) =
     min (of_nat (length (filter (str_includes lt) urgencyKeywords)) * (3 / 10)) 1"
  "sentiment (analyzeLower lt) =
     (if wordCount negativeWords lt > wordCount positiveWords lt then ''negative''
      else if wordCount positiveWords lt > wordCount negativeWords lt then ''positive''
      else ''neutral'')"
  by (simp_all add: analyzeLower_def Let_def fold_detectHazard_hazardType
        fold_detectHazard_keywords fold_detectHazard_confidence fold_detectHazard_other
        split: list.splits)

lemma keywordsOf_entry:
  assumes "e \<in> set hazardKeywords"
  shows "keywordsOf (fst e) = snd e"
proof -
  have "distinct (map fst hazardKeywords)"
    by (simp add: hazardKeywords_def)
  with assms have "map_of hazardKeywords (fst e) = Some (snd e)"
    by simp
  then show ?thesis
    by (simp add: keywordsOf_def)
qed

lemma matchedCategories_entries:
  "map fst (filter (\<lambda>e. list_ex (str_includes lt) (snd e)) hazardKeywords) = matchedCategories lt"
proof -
  have "filter (\<lambda>e. list_ex (str_includes lt) (snd e)) hazardKeywords
        = filter (mentions lt \<circ> fst) hazardKeywords"
    by (rule filter_cong) (simp_all add: mentions_def keywordsOf_entry)
  then show ?thesis
    by (simp add: matchedCategories_def filter_map)
qed

lemma hazardType_analyzeLower:
  "hazardType (analyzeLower lt) =
     (if matchedCategories lt = [] then None else Some (last (matchedCategories lt)))"
proof -
  let ?ms = "filter (\<lambda>e. list_ex (str_includes lt) (snd e)) hazardKeywords"
  have m: "matchedCategories lt = map fst ?ms"
    by (simp only: matchedCategories_entries)
  show ?thesis
  proof (cases ?ms)
    case Nil
    then show ?thesis by (simp add: analyzeLower_fields(1) m)
  next
    case (Cons e es)
    then have "map fst ?ms \<noteq> []" by simp
    with Cons show ?thesis
      by (simp add: analyzeLower_fields(1) m last_map del: filter.simps)
  qed
qed

lemma matchedCategories_flood_only:
  assumes "mentions lt ''flood''" "\<not> mentions lt ''storm''" "\<not> mentions lt ''fire''"
    "\<not> mentions lt ''earthquake''" "\<not> mentions lt ''tsunami''" "\<not> mentions lt ''accident''"
  shows "matchedCategories lt = [''flood'']"
  using assms by (simp add: matchedCategories_def hazardKeywords_def)

subsection \<open>Which category is reported\<close>

text \<open>
  C1 (as the code has it). The loop over the categories has no \<open>break\<close> and assigns
  \<open>hazardType\<close> at every category with a match, so for every text \<open>analyzeText\<close> reports
  the category that comes \<^emph>\<open>latest\<close> in the enumeration order (flood, storm, fire, earthquake,
  tsunami, accident) among those with a keyword in the text, and \<open>null\<close> when there is none.
  In particular a text with a flood keyword and no keyword of any of the five later
  categories is reported as \<open>flood\<close>.
\<close>

theorem analyzeText_last_category:
  "\<exists>a. analyzeText (Some text) = Inr a
     \<and> hazardType a =
         (if matchedCategories (toLowerCase text) = [] then None
          else Some (last (matchedCategories (toLowerCase text))))
     \<and> (mentions (toLowerCase text) ''flood''
          \<and> \<not> mentions (toLowerCase text) ''storm''
          \<and> \<not> mentions (toLowerCase text) ''fire''
          \<and> \<not> mentions (toLowerCase text) ''earthquake''
          \<and> \<not> mentions (toLowerCase text) ''tsunami''
          \<and> \<not> mentions (toLowerCase text) ''accident''
        \<longrightarrow> hazardType a = Some ''flood'')"
proof (intro exI conjI impI)
  show "analyzeText (Some text) = Inr (analyzeLower (toLowerCase text))"
    by (simp add: analyzeText_def)
  show "hazardType (analyzeLower (toLowerCase text)) =
         (if matchedCategories (toLowerCase text) = [] then None
          else Some (last (matchedCategories (toLowerCase text))))"
    by (rule hazardType_analyzeLower)
next
  assume "mentions (toLowerCase text) ''flood''
          \<and> \<not> mentions (toLowerCase text) ''storm''
          \<and> \<not> mentions (toLowerCase text) ''fire''
          \<and> \<not> mentions (toLowerCase text) ''earthquake''
          \<and> \<not> mentions (toLowerCase text) ''tsunami''
          \<and> \<not> mentions (toLowerCase text) ''accident''"
  then have "matchedCategories (toLowerCase text) = [''flood'']"
    by (intro matchedCategories_flood_only) simp_all
  then show "hazardType (analyzeLower (toLowerCase text)) = Some ''flood''"
    by (simp add: hazardType_analyzeLower)
qed

theorem analyzeText_last_category_witness:
  "mentions (toLowerCase ''Heavy RAIN, streets submerged'') ''flood''
   \<and> \<not> mentions (toLowerCase ''Heavy RAIN, streets submerged'') ''storm''
   \<and> (\<exists>a. analyzeText (Some ''Heavy RAIN, streets submerged'') = Inr a
            \<and> hazardType a = Some ''flood'')"
proof -
  have l: "toLowerCase ''Heavy RAIN, streets submerged'' = ''heavy rain, streets submerged''"
    by (simp add: toLowerCase_def toLowerChar_def)
  have m: "mentions ''heavy rain, streets submerged'' ''flood''"
    "\<not> mentions ''heavy rain, streets submerged'' ''storm''"
    "\<not> mentions ''heavy rain, streets submerged'' ''fire''"
    "\<not> mentions ''heavy rain, streets submerged'' ''earthquake''"
    "\<not> mentions ''heavy rain, streets submerged'' ''tsunami''"
    "\<not> mentions ''heavy rain, streets submerged'' ''accident''"
    by (simp_all add: mentions_def keywordsOf_def hazardKeywords_def)
  show ?thesis
    using analyzeText_last_category [of "''Heavy RAIN, streets submerged''"] m
    unfolding l by blast
qed

text \<open>
  The claim as stated fails: \<open>flood storm\<close> has a flood keyword and a storm keyword, flood is
  the earliest category of the enumeration, and the category reported is \<open>storm\<close>.
\<close>

theorem analyzeText_first_category_counterexample:
  "mentions (toLowerCase ''flood storm'') ''flood''
   \<and> mentions (toLowerCase ''flood storm'') ''storm''
   \<and> analyzeText (Some ''flood storm'') =
       Inr \<lparr>hazardType = Some ''storm'', urgencyLevel = 0, keywords' = [''flood'', ''storm''],
             sentiment = ''neutral'', confidence = 2 / 5\<rparr>"
  by (simp add: analyzeText_def analyzeLower_def toLowerCase_def toLowerChar_def hazardKeywords_def
      urgencyKeywords_def negativeWords_def positiveWords_def detectHazard_def wordCount_def
      mentions_def keywordsOf_def Let_def)

subsection \<open>Absent and empty text\<close>

text \<open>
  C2 (as the code has it). \<open>analyzeText\<close> returns an analysis for every string. For the
  empty string it is the zero-signal result, whose \<open>hazardType\<close> is \<open>null\<close>, with urgency 0,
  sentiment \<open>neutral\<close>, confidence 0 and no keywords. For an absent text (\<open>null\<close> or
  \<open>undefined\<close>) it throws a \<open>TypeError\<close>.
\<close>

theorem analyzeText_absent_or_empty:
  "analyzeText None = Inl TypeError
   \<and> analyzeText (Some '''') =
       Inr \<lparr>hazardType = None, urgencyLevel = 0, keywords' = [],
             sentiment = ''neutral'', confidence = 0\<rparr>
   \<and> (\<exists>a. analyzeText (Some text) = Inr a)"
proof (intro conjI)
  show "analyzeText None = Inl TypeError"
    by (simp add: analyzeText_def)
  show "analyzeText (Some '''') =
       Inr \<lparr>hazardType = None, urgencyLevel = 0, keywords' = [],
             sentiment = ''neutral'', confidence = 0\<rparr>"
    by (simp add: analyzeText_def analyzeLower_def toLowerCase_def hazardKeywords_def
      urgencyKeywords_def negativeWords_def positiveWords_def detectHazard_def wordCount_def
      Let_def)
  show "\<exists>a. analyzeText (Some text) = Inr a"
    by (simp add: analyzeText_def)
qed

text \<open>
  The claim as stated fails at the absent text: the call throws and returns no result.
\<close>

theorem analyzeText_null_counterexample:
  "analyzeText None = Inl TypeError"
  by (simp add: analyzeText_def)

subsection \<open>Sentiment\<close>

lemma wordCount_sum:
  "wordCount ws lt = sum_list (map (\<lambda>w. regexCount w lt) ws)"
proof -
  have "foldl (\<lambda>count word. count + regexCount word lt) n ws
          = n + sum_list (map (\<lambda>w. regexCount w lt) ws)" for n
    by (induction ws arbitrary: n) simp_all
  then show ?thesis by (simp add: wordCount_def)
qed

lemma occurrences_skip:
  assumes "\<And>k. k < length xs \<Longrightarrow> \<not> prefix w (drop k (xs @ ys))"
  shows "occurrences w (xs @ ys) = occurrences w ys"
  using assms
proof (induction xs)
  case Nil
  then show ?case by simp
next
  case (Cons x xs)
  have "\<not> prefix w ((x # xs) @ ys)"
    using Cons.prems [of 0] by simp
  moreover have "occurrences w (xs @ ys) = occurrences w ys"
  proof (rule Cons.IH)
    fix k assume "k < length xs"
    then show "\<not> prefix w (drop k (xs @ ys))"
      using Cons.prems [of "Suc k"] by simp
  qed
  ultimately show ?case by simp
qed

lemma borderless_no_overlap:
  assumes b: "borderless w" and k: "0 < k" "k < length w"
  shows "\<not> prefix w (drop k (w @ r))"
proof
  assume p: "prefix w (drop k (w @ r))"
  have "drop k (w @ r) = drop k w @ r"
    using k by simp
  with p have "prefix w (drop k w @ r)" by simp
  moreover have "length (drop k w) < length w"
    using k by simp
  ultimately have "prefix (drop k w) w"
    by (metis prefix_same_cases not_less prefix_length_le prefixI)
  moreover have "\<not> prefix (drop k w) w"
    using b k by (simp add: borderless_def list_all_iff)
  ultimately show False by simp
qed

lemma occurrences_after_match:
  assumes b: "borderless w" and p: "prefix w (c # cs)" and ne: "w \<noteq> []"
  shows "occurrences w cs = occurrences w (drop (length w) (c # cs))"
proof -
  from p obtain r where r: "c # cs = w @ r"
    by (auto simp: prefix_def)
  with ne obtain w' where w': "w = c # w'" "cs = w' @ r"
    by (cases w) auto
  have "occurrences w (w' @ r) = occurrences w r"
  proof (rule occurrences_skip)
    fix k assume "k < length w'"
    then have "0 < Suc k" "Suc k < length w"
      using w' by simp_all
    then have "\<not> prefix w (drop (Suc k) (w @ r))"
      by (rule borderless_no_overlap [OF b])
    then show "\<not> prefix w (drop k (w' @ r))"
      using w' by simp
  qed
  moreover have "drop (length w) (c # cs) = r"
    using r by simp
  ultimately show ?thesis
    using w' by simp
qed

lemma regexCount_occurrences:
  assumes "borderless w" "w \<noteq> []"
  shows "regexCount w t = occurrences w t"
  using assms
proof (induction w t rule: regexCount.induct)
  case (1 w)
  then show ?case by simp
next
  case (2 w c cs)
  show ?case
  proof (cases "prefix w (c # cs)")
    case True
    then have "regexCount w (c # cs) = Suc (occurrences w (drop (length w) (c # cs)))"
      using 2 by simp
    also have "\<dots> = Suc (occurrences w cs)"
      using occurrences_after_match [OF "2.prems"(1) True "2.prems"(2)] by simp
    finally show ?thesis
      using True by simp
  next
    case False
    then show ?thesis
      using 2 by simp
  qed
qed

lemma sentiment_words_borderless:
  "list_all (\<lambda>w. borderless w \<and> w \<noteq> []) (negativeWords @ positiveWords)"
  by (simp add: negativeWords_def positiveWords_def borderless_def)

lemma wordCount_occurrences:
  assumes "list_all (\<lambda>w. borderless w \<and> w \<noteq> []) ws"
  shows "wordCount ws lt = sum_list (map (\<lambda>w. occurrences w lt) ws)"
proof -
  have "map (\<lambda>w. regexCount w lt) ws = map (\<lambda>w. occurrences w lt) ws"
    using assms by (simp add: list_all_iff regexCount_occurrences)
  then show ?thesis
    by (simp only: wordCount_sum)
qed

text \<open>
  C3 (as the code has it). For every text the sentiment is decided by counting, for each
  word of the negative set and of the positive set, the occurrences of the word as a
  substring of the lower-cased text, inside longer words too: \<open>negative\<close> iff the negative
  count exceeds the positive count, \<open>positive\<close> iff the positive count exceeds the negative
  count, \<open>neutral\<close> iff the two are equal. (The global regular expression counts
  occurrences that do not overlap; the nine sentiment words are borderless, so that these
  are all the occurrences.)
\<close>

theorem sentiment_by_substring_counts:
  "\<exists>a. analyzeText (Some text) = Inr a
     \<and> (sentiment a = ''negative'' \<longleftrightarrow> negCount (toLowerCase text) > posCount (toLowerCase text))
     \<and> (sentiment a = ''positive'' \<longleftrightarrow> posCount (toLowerCase text) > negCount (toLowerCase text))
     \<and> (sentiment a = ''neutral'' \<longleftrightarrow> negCount (toLowerCase text) = posCount (toLowerCase text))"
proof -
  have "wordCount negativeWords lt = negCount lt" "wordCount positiveWords lt = posCount lt" for lt
    using sentiment_words_borderless
    by (simp_all add: wordCount_occurrences negCount_def posCount_def)
  then show ?thesis
    by (auto simp add: analyzeText_def analyzeLower_fields(5))
qed

text \<open>
  The claim as stated fails: \<open>unsafe\<close> contains no sentiment word as a whole word, so
  whole-word counting gives \<open>neutral\<close>, and the code finds \<open>safe\<close> in it and answers
  \<open>positive\<close>.
\<close>

theorem sentiment_whole_word_counterexample:
  "analyzeText (Some ''unsafe'') =
     Inr \<lparr>hazardType = None, urgencyLevel = 0, keywords' = [], sentiment = ''positive'',
           confidence = 0\<rparr>
   \<and> spec_sentiment (toLowerCase ''unsafe'') = ''neutral''"
  by (simp add: analyzeText_def analyzeLower_def toLowerCase_def toLowerChar_def hazardKeywords_def
      urgencyKeywords_def negativeWords_def positiveWords_def detectHazard_def wordCount_def
      spec_sentiment_def spec_wholeWordCount_def spec_isWordChar_def Let_def)

subsection \<open>Bounds\<close>

text \<open>
  C6. For every text, whatever the number of keyword matches and repetitions, the
  confidence and the urgency level that \<open>analyzeText\<close> returns lie between 0 and 1.
\<close>

theorem analyzeText_bounds:
  "\<exists>a. analyzeText (Some text) = Inr a
     \<and> 0 \<le> confidence a \<and> confidence a \<le> 1
     \<and> 0 \<le> urgencyLevel a \<and> urgencyLevel a \<le> 1"
  by (simp add: analyzeText_def analyzeLower_fields)

subsection \<open>Matched keywords\<close>

lemma distinct_filter_append:
  assumes "distinct xs" "distinct ys" "set xs \<inter> set ys = {k}"
  shows "distinct (filter P xs @ filter P ys) \<longleftrightarrow> \<not> P k"
  using assms by auto

text \<open>
  C10 (as the code has it). \<open>keywords\<close> is an array filled by \<open>push\<close>, first with the matches
  of every category, then with the urgency matches. The word \<open>emergency\<close> is a keyword of the
  category \<open>accident\<close> and an urgency keyword, and it is the only such word: for every text
  the array is free of duplicates iff the lower-cased text does not contain \<open>emergency\<close>.
\<close>

theorem keywords_distinct_iff:
  "\<exists>a. analyzeText (Some text) = Inr a
     \<and> (distinct (keywords' a) \<longleftrightarrow> \<not> str_includes (toLowerCase text) ''emergency'')"
proof -
  let ?P = "str_includes (toLowerCase text)"
  let ?hs = "concat (map snd hazardKeywords)"
  have k: "keywords' (analyzeLower (toLowerCase text)) = filter ?P ?hs @ filter ?P urgencyKeywords"
    by (simp add: analyzeLower_fields(2) filter_concat comp_def)
  have "distinct ?hs" "distinct urgencyKeywords"
    by (simp_all add: hazardKeywords_def urgencyKeywords_def)
  moreover have "set ?hs \<inter> set urgencyKeywords = {''emergency''}"
    by (simp add: hazardKeywords_def urgencyKeywords_def)
  ultimately have "distinct (filter ?P ?hs @ filter ?P urgencyKeywords) \<longleftrightarrow> \<not> ?P ''emergency''"
    by (rule distinct_filter_append)
  with k show ?thesis
    by (simp add: analyzeText_def)
qed

text \<open>
  The claim as stated fails: for the text \<open>emergency\<close> the array holds the word twice.
\<close>

theorem keywords_duplicate_counterexample:
  "analyzeText (Some ''emergency'') =
     Inr \<lparr>hazardType = Some ''accident'', urgencyLevel = 3 / 10,
           keywords' = [''emergency'', ''emergency''], sentiment = ''negative'',
           confidence = 1 / 5\<rparr>"
  by (simp add: analyzeText_def analyzeLower_def toLowerCase_def toLowerChar_def hazardKeywords_def
      urgencyKeywords_def negativeWords_def positiveWords_def detectHazard_def wordCount_def
      Let_def)

subsection \<open>Social media posts\<close>

lemma mapE_total:
  assumes "\<And>x. f x = Inr (g x)"
  shows "mapE f xs = Inr (map g xs)"
  by (induction xs) (simp_all add: assms)

lemma analyzePost_augment: "analyzePost p = Inr (augment p)"
  by (simp add: analyzePost_def calculateRelevance_def analyzeText_def augment_def Let_def)

lemma processSocialMedia_eq:
  "processSocialMedia posts =
     Inr (map augment (filter (\<lambda>p. confidence (analyzeLower (toLowerCase (content p))) > 3 / 10) posts))"
proof -
  have "mapE analyzePost posts = Inr (map augment posts)"
    by (rule mapE_total) (rule analyzePost_augment)
  moreover have "confidence (analysis (augment p)) = confidence (analyzeLower (toLowerCase (content p)))" for p
    by (simp add: augment_def Let_def post.defs)
  ultimately show ?thesis
    by (simp add: processSocialMedia_def filter_map comp_def)
qed

text \<open>
  C9. For every list of posts \<open>processSocialMedia\<close> returns, in their order, exactly the
  posts whose analysis has a confidence above 0.3, each with its analysis and with the
  relevance score confidence * (1 + engagement / 100) * (urgencyLevel + 0.5) of its own text.
\<close>

theorem processSocialMedia_result:
  "\<exists>out. processSocialMedia posts = Inr out
     \<and> map post.truncate out =
         filter (\<lambda>p. \<exists>a. analyzeText (Some (content p)) = Inr a \<and> confidence a > 3 / 10) posts
     \<and> (\<forall>q \<in> set out. \<exists>a. analyzeText (Some (content q)) = Inr a
            \<and> confidence a > 3 / 10
            \<and> analysis q = a
            \<and> relevanceScore q =
                 confidence a * (1 + engagement q / 100) * (urgencyLevel a + 5 / 10))"
proof -
  let ?keep = "\<lambda>p. confidence (analyzeLower (toLowerCase (content p))) > 3 / 10"
  let ?out = "map augment (filter ?keep posts)"
  have 1: "processSocialMedia posts = Inr ?out"
    by (rule processSocialMedia_eq)
  have "post.truncate (augment p) = p" for p
    by (simp add: augment_def Let_def post.defs)
  then have 2: "map post.truncate ?out =
         filter (\<lambda>p. \<exists>a. analyzeText (Some (content p)) = Inr a \<and> confidence a > 3 / 10) posts"
    by (simp add: analyzeText_def comp_def)
  have 3: "\<exists>a. analyzeText (Some (content q)) = Inr a
            \<and> confidence a > 3 / 10
            \<and> analysis q = a
            \<and> relevanceScore q =
                 confidence a * (1 + engagement q / 100) * (urgencyLevel a + 5 / 10)"
    if "q \<in> set ?out" for q
  proof -
    from that obtain p where p: "q = augment p" "?keep p"
      by auto
    then show ?thesis
      by (simp add: analyzeText_def augment_def Let_def post.defs)
  qed
  from 1 2 3 show ?thesis
    by blast
qed

lemma mockPosts_lower:
  "toLowerCase ''Heavy rainfall in Mumbai causing flooding #MumbaiRains #Emergency''
     = ''heavy rainfall in mumbai causing flooding #mumbairains #emergency''"
  "toLowerCase ''Cyclone warning issued for Odisha coast. Please stay safe!''
     = ''cyclone warning issued for odisha coast. please stay safe!''"
  "toLowerCase ''Forest fire spreading near Dehradun. Authorities responding.''
     = ''forest fire spreading near dehradun. authorities responding.''"
  by (simp_all add: toLowerCase_def toLowerChar_def)

lemma mockPosts_analysis:
  "analyzeLower ''heavy rainfall in mumbai causing flooding #mumbairains #emergency''
     = \<lparr>hazardType = Some ''accident'', urgencyLevel = 3 / 10,
         keywords' = [''flood'', ''flooding'', ''rain'', ''emergency'', ''emergency''],
         sentiment = ''negative'', confidence = 4 / 5\<rparr>"
  "analyzeLower ''cyclone warning issued for odisha coast. please stay safe!''
     = \<lparr>hazardType = Some ''storm'', urgencyLevel = 0, keywords' = [''cyclone''],
         sentiment = ''positive'', confidence = 1 / 5\<rparr>"
  "analyzeLower ''forest fire spreading near dehradun. authorities responding.''
     = \<lparr>hazardType = Some ''fire'', urgencyLevel = 0, keywords' = [''fire''],
         sentiment = ''neutral'', confidence = 1 / 5\<rparr>"
  by (simp_all add: analyzeLower_def hazardKeywords_def urgencyKeywords_def negativeWords_def
        positiveWords_def detectHazard_def wordCount_def Let_def)

theorem processSocialMedia_result_witness:
  "processSocialMedia mockPosts =
     Inr [\<lparr>platform = ''Twitter'',
           content = ''Heavy rainfall in Mumbai causing flooding #MumbaiRains #Emergency'',
           engagement = 150,
           analysis =
             \<lparr>hazardType = Some ''accident'', urgencyLevel = 3 / 10,
               keywords' = [''flood'', ''flooding'', ''rain'', ''emergency'', ''emergency''],
               sentiment = ''negative'', confidence = 4 / 5\<rparr>,
           relevanceScore = 8 / 5\<rparr>]"
proof -
  obtain out where out: "processSocialMedia mockPosts = Inr out"
    using processSocialMedia_result [of mockPosts] by blast
  moreover have "processSocialMedia mockPosts =
     Inr (map augment
       (filter (\<lambda>p. confidence (analyzeLower (toLowerCase (content p))) > 3 / 10) mockPosts))"
    by (rule processSocialMedia_eq)
  ultimately show ?thesis
    by (simp add: mockPosts_def augment_def post.defs mockPosts_lower mockPosts_analysis)
qed

section \<open>Properties of the hotspot generator\<close>

subsection \<open>The clusters\<close>

lemma pushReport_map_of:
  "map_of (pushReport key r cl) k =
     (if k = key then Some ((case map_of cl k of None \<Rightarrow> [] | Some rs \<Rightarrow> rs) @ [r])
      else map_of cl k)"
  by (induction cl) auto

lemma pushReport_keys:
  "map fst (pushReport key r cl) =
     (if key \<in> set (map fst cl) then map fst cl else map fst cl @ [key])"
  by (induction cl) (auto simp add: rev_image_eqI)

lemma pushReport_distinct:
  "distinct (map fst cl) \<Longrightarrow> distinct (map fst (pushReport key r cl))"
  by (simp add: pushReport_keys)

lemma fold_pushReport_distinct:
  "distinct (map fst cl) \<Longrightarrow>
   distinct (map fst (fold (\<lambda>r clusters. pushReport (f r) r clusters) rs cl))"
  by (induction rs arbitrary: cl) (simp_all add: pushReport_distinct)

lemma fold_pushReport_map_of:
  "map_of (fold (\<lambda>r clusters. pushReport (f r) r clusters) rs cl) k =
     (if map_of cl k = None \<and> filter (\<lambda>r. f r = k) rs = [] then None
      else Some ((case map_of cl k of None \<Rightarrow> [] | Some old \<Rightarrow> old) @ filter (\<lambda>r. f r = k) rs))"
  by (induction rs arbitrary: cl) (auto simp add: pushReport_map_of split: option.splits)

lemma groupReports_distinct: "distinct (map fst (groupReports rs))"
  by (simp add: groupReports_def fold_pushReport_distinct)

lemma groupReports_map_of:
  "map_of (groupReports rs) k =
     (if filter (\<lambda>r. cellKey r = k) rs = [] then None
      else Some (filter (\<lambda>r. cellKey r = k) rs))"
  by (simp add: groupReports_def fold_pushReport_map_of)

lemma locationClusters_map_of:
  "map_of (locationClusters now st) k =
     (if cellMembers now st k = [] then None else Some (cellMembers now st k))"
proof -
  have "filter (\<lambda>r. cellKey r = k) (filter (inWindow now) (reports st)) = cellMembers now st k"
    by (simp add: cellMembers_def conj_commute)
  then show ?thesis
    by (simp add: locationClusters_def groupReports_map_of)
qed

lemma locationClusters_entry:
  "(k, ms) \<in> set (locationClusters now st) \<longleftrightarrow> ms = cellMembers now st k \<and> ms \<noteq> []"
proof -
  have "distinct (map fst (locationClusters now st))"
    by (simp add: locationClusters_def groupReports_distinct)
  then have "(k, ms) \<in> set (locationClusters now st)
               \<longleftrightarrow> map_of (locationClusters now st) k = Some ms"
    by simp
  then show ?thesis
    by (auto simp add: locationClusters_map_of)
qed

lemma hotspots_generateHotspots:
  "h \<in> set (hotspots (generateHotspots now st)) \<longleftrightarrow>
     (\<exists>k. 2 \<le> length (cellMembers now st k) \<and> h = makeHotspot (k, cellMembers now st k))"
proof -
  have "h \<in> set (hotspots (generateHotspots now st)) \<longleftrightarrow>
          (\<exists>k ms. (k, ms) \<in> set (locationClusters now st) \<and> 2 \<le> length ms
                    \<and> h = makeHotspot (k, ms))"
    by (auto simp add: generateHotspots_def image_iff)
  also have "\<dots> \<longleftrightarrow>
     (\<exists>k. 2 \<le> length (cellMembers now st k) \<and> h = makeHotspot (k, cellMembers now st k))"
  proof -
    have "cellMembers now st k \<noteq> []" if "2 \<le> length (cellMembers now st k)" for k
      using that by auto
    then show ?thesis
      by (simp add: locationClusters_entry) blast
  qed
  finally show ?thesis .
qed

lemma makeHotspot_fields:
  "h_id (makeHotspot (k, ms)) = k"
  "reportCount (makeHotspot (k, ms)) = length ms"
  "h_severity (makeHotspot (k, ms)) = severityCategory (severityScore ms)"
  "affectedPeople (makeHotspot (k, ms)) = foldl (\<lambda>sum r. sum + peopleOf r) 0 ms"
  "h_latitude (makeHotspot (k, ms)) =
     jsDiv (foldl (\<lambda>sum r. jsAdd sum (toNumber (latitude r))) (Fin 0) ms)
       (Fin (of_nat (length ms)))"
  "h_longitude (makeHotspot (k, ms)) =
     jsDiv (foldl (\<lambda>sum r. jsAdd sum (toNumber (longitude r))) (Fin 0) ms)
       (Fin (of_nat (length ms)))"
  by (simp_all add: makeHotspot_def Let_def)

subsection \<open>Sums over a cluster\<close>

text \<open>What \<open>parseInt\<close> reads: a leading integer, if there is one.\<close>

lemma parseInt_examples:
  "parseInt None = None"
  "parseInt (Some ''many'') = None"
  "parseInt (Some '''') = None"
  "parseInt (Some ''12'') = Some 12"
  "parseInt (Some ''12abc'') = Some 12"
  "parseInt (Some '' -7.9'') = Some (- 7)"
  "parseInt (Some ''0x1F'') = Some 31"
  by code_simp+

text \<open>
  A severity that names an inherited property turns the score into a string, whatever
  the other reports weigh, and the category is \<open>medium\<close>; an unknown severity weighs 1.
\<close>

lemma severityScore_examples:
  "severityWeight ''critical'' = Weight 4"
  "severityWeight ''unknown'' = Weight 1"
  "severityWeight ''constructor'' = Inherited"
  "severityScore [mumbaiA, mumbaiB, mumbaiA\<lparr>severity := ''toString''\<rparr>, mumbaiB] = ScoreText"
  "severityCategory ScoreText = ''medium''"
  "severityCategory (severityScore [mumbaiA, mumbaiB, mumbaiA]) = ''critical''"
  by code_simp+






lemma cellMembers_self:
  "r \<in> set (reports st) \<Longrightarrow> inWindow now r \<Longrightarrow> r \<in> set (cellMembers now st (cellKey r))"
  by (simp add: cellMembers_def)

lemma makeHotspot_in_hotspots:
  assumes "2 \<le> length (cellMembers now st k)"
  shows "makeHotspot (k, cellMembers now st k) \<in> set (hotspots (generateHotspots now st))"
  unfolding hotspots_generateHotspots using assms by blast

subsection \<open>Cell keys\<close>

lemma digitChar_digit: "d < 10 \<Longrightarrow> digitChar d \<in> set ''0123456789''"
proof -
  assume "d < 10"
  then have "d < length ''0123456789''" by simp
  then show ?thesis
    unfolding digitChar_def by (rule nth_mem)
qed

lemma digitValue_digitChar: "d < 10 \<Longrightarrow> digitValue (digitChar d) = Some d"
proof -
  assume "d < 10"
  then have "d = 0 \<or> d = 1 \<or> d = 2 \<or> d = 3 \<or> d = 4 \<or> d = 5 \<or> d = 6 \<or> d = 7
               \<or> d = 8 \<or> d = 9"
    by arith
  then show ?thesis
    by (elim disjE) (simp_all add: digitChar_def digitValue_def toLowerChar_def)
qed

lemma radixValue_snoc:
  "radixValue R (Z @ [c]) =
     radixValue R Z * int R + (case digitValue c of None \<Rightarrow> 0 | Some d \<Rightarrow> int d)"
  by (simp add: radixValue_def)

lemma radixValue_showNat: "radixValue 10 (showNat n) = int n"
proof (induction n rule: showNat.induct)
  case (1 n)
  show ?case
  proof (cases "n < 10")
    case True
    then show ?thesis
      by (subst showNat.simps) (simp add: radixValue_def digitValue_digitChar)
  next
    case False
    have "radixValue 10 (showNat n) =
            radixValue 10 (showNat (n div 10)) * 10 + int (n mod 10)"
      using False by (subst showNat.simps) (simp add: radixValue_snoc digitValue_digitChar)
    also have "\<dots> = int (n div 10) * 10 + int (n mod 10)"
      using False 1 by simp
    also have "\<dots> = int n"
      by (simp add: zdiv_int zmod_int)
    finally show ?thesis .
  qed
qed

lemma showNat_digits: "set (showNat n) \<subseteq> set ''0123456789''"
proof (induction n rule: showNat.induct)
  case (1 n)
  show ?case
  proof (cases "n < 10")
    case True
    then show ?thesis
      using digitChar_digit [of n] by (subst showNat.simps) simp
  next
    case False
    then show ?thesis
      using 1 digitChar_digit [of "n mod 10"] by (subst showNat.simps) simp
  qed
qed

lemma showNat_inj: "showNat m = showNat n \<Longrightarrow> m = n"
  by (metis radixValue_showNat of_nat_eq_iff)

lemma showNat_no_char: "c \<notin> set ''0123456789'' \<Longrightarrow> c \<notin> set (showNat n)"
  using showNat_digits [of n] by blast

lemma showInt_no_char:
  assumes "c \<notin> set ''-0123456789''"
  shows "c \<notin> set (showInt i)"
proof -
  from assms have c: "c \<noteq> CHR ''-''" "c \<notin> set ''0123456789''"
    by simp_all
  show ?thesis
  proof (cases "i < 0")
    case True
    then show ?thesis
      using c showNat_no_char [OF c(2), of "nat (- i)"] by (simp add: showInt_def)
  next
    case False
    then show ?thesis
      using showNat_no_char [OF c(2), of "nat i"] by (simp add: showInt_def)
  qed
qed

lemma showNat_not_minus: "showNat n \<noteq> CHR ''-'' # s"
proof
  assume "showNat n = CHR ''-'' # s"
  then have "CHR ''-'' \<in> set (showNat n)" by simp
  moreover have "CHR ''-'' \<notin> set (showNat n)"
    by (rule showNat_no_char) simp
  ultimately show False by simp
qed

lemma showInt_inj: "showInt i = showInt j \<Longrightarrow> i = j"
proof -
  assume eq: "showInt i = showInt j"
  show "i = j"
  proof (cases "i < 0"; cases "j < 0")
    assume "i < 0" "j < 0"
    with eq have "nat (- i) = nat (- j)"
      by (simp add: showInt_def showNat_inj)
    with \<open>i < 0\<close> \<open>j < 0\<close> show ?thesis by simp
  next
    assume "i < 0" "\<not> j < 0"
    with eq have "showNat (nat j) = CHR ''-'' # showNat (nat (- i))"
      by (simp add: showInt_def)
    then show ?thesis
      by (simp add: showNat_not_minus)
  next
    assume "\<not> i < 0" "j < 0"
    with eq have "showNat (nat i) = CHR ''-'' # showNat (nat (- j))"
      by (simp add: showInt_def)
    then show ?thesis
      by (simp add: showNat_not_minus)
  next
    assume "\<not> i < 0" "\<not> j < 0"
    with eq have "nat i = nat j"
      by (simp add: showInt_def showNat_inj)
    with \<open>\<not> i < 0\<close> \<open>\<not> j < 0\<close> show ?thesis by simp
  qed
qed

lemma numberToString_no_underscore: "CHR ''_'' \<notin> set (numberToString x)"
proof (cases x)
  case (Fin a)
  have "CHR ''_'' \<notin> set (showInt \<lfloor>a\<rfloor>)"
    by (rule showInt_no_char) simp
  with Fin show ?thesis by simp
qed simp_all

lemma showInt_not_word:
  "showInt i \<noteq> ''NaN''" "showInt i \<noteq> ''Infinity''" "showInt i \<noteq> ''-Infinity''"
proof -
  have N: "CHR ''N'' \<notin> set (showInt i)"
    by (rule showInt_no_char) simp
  have I: "CHR ''I'' \<notin> set (showInt i)"
    by (rule showInt_no_char) simp
  show "showInt i \<noteq> ''NaN''"
  proof
    assume "showInt i = ''NaN''"
    then have "CHR ''N'' \<in> set (showInt i)" by simp
    with N show False by simp
  qed
  show "showInt i \<noteq> ''Infinity''"
  proof
    assume "showInt i = ''Infinity''"
    then have "CHR ''I'' \<in> set (showInt i)" by simp
    with I show False by simp
  qed
  show "showInt i \<noteq> ''-Infinity''"
  proof
    assume "showInt i = ''-Infinity''"
    then have "CHR ''I'' \<in> set (showInt i)" by simp
    with I show False by simp
  qed
qed

lemma numberToString_floor_inj:
  "numberToString (mathFloor x) = numberToString (mathFloor y) \<longleftrightarrow> mathFloor x = mathFloor y"
proof (cases x; cases y)
  fix a b assume "x = Fin a" "y = Fin b"
  then show ?thesis
    by (auto dest: showInt_inj)
qed (simp_all add: showInt_not_word showInt_not_word [symmetric])


lemma cellKey_eq_iff: "cellKey r1 = cellKey r2 \<longleftrightarrow> cellIndex r1 = cellIndex r2"
  by (simp add: cellKey_def cellIndex_def append_Cons_eq_iff numberToString_no_underscore
      numberToString_floor_inj)

subsection \<open>The example reports\<close>

lemma example_keys:
  "cellKey mumbaiA = ''190_728''" "cellKey mumbaiB = ''190_728''" "cellKey mumbaiOld = ''190_728''"
  "cellKey chennai = ''130_802''" "cellKey noPlace = ''NaN_NaN''"
  "cellKey southOfEquator = ''-1_0''" "cellKey northOfEquator = ''0_0''"
  "cellKey nullPlace = ''0_0''"
  by code_simp+

lemma example_windows:
  "inWindow exampleNow mumbaiA" "inWindow exampleNow mumbaiB" "\<not> inWindow exampleNow mumbaiOld"
  "inWindow exampleNow chennai" "inWindow exampleNow noPlace"
  "inWindow exampleNow southOfEquator" "inWindow exampleNow northOfEquator"
  by (simp_all add: inWindow_def exampleNow_def timeWindow_def mumbaiA_def mumbaiB_def
        mumbaiOld_def chennai_def noPlace_def southOfEquator_def northOfEquator_def)

lemma example_members:
  "cellMembers exampleNow exampleServer ''190_728'' = [mumbaiA, mumbaiB]"
  "cellMembers exampleNow exampleServer ''130_802'' = [chennai]"
  "cellMembers exampleNow exampleServer ''NaN_NaN'' = [noPlace, noPlace]"
  by (simp_all add: cellMembers_def exampleServer_def example_keys example_windows)

subsection \<open>Isolated reports and pairs of critical reports\<close>

text \<open>
  C5. For every report set and every cell key: a cell with exactly one in-window report
  yields no hotspot; a cell whose in-window reports are exactly two reports of severity
  \<open>critical\<close> (at the same location or not) has the severity score 8 and yields a hotspot, of
  category \<open>high\<close> and not \<open>critical\<close>, with report count 2.
\<close>

theorem hotspot_single_and_critical_pair:
  "(length (cellMembers now st k) = 1
      \<longrightarrow> k \<notin> h_id ` set (hotspots (generateHotspots now st)))
   \<and> (cellMembers now st k = [r1, r2] \<and> severity r1 = ''critical'' \<and> severity r2 = ''critical''
      \<longrightarrow> severityScore [r1, r2] = Score 8
          \<and> (\<exists>h \<in> set (hotspots (generateHotspots now st)). h_id h = k)
          \<and> (\<forall>h \<in> set (hotspots (generateHotspots now st)).
                h_id h = k \<longrightarrow> h_severity h = ''high'' \<and> reportCount h = 2))"
proof (intro conjI impI)
  assume one: "length (cellMembers now st k) = 1"
  show "k \<notin> h_id ` set (hotspots (generateHotspots now st))"
  proof
    assume "k \<in> h_id ` set (hotspots (generateHotspots now st))"
    then obtain h where "h \<in> set (hotspots (generateHotspots now st))" "h_id h = k"
      by auto
    then have "2 \<le> length (cellMembers now st k)"
      by (auto simp add: hotspots_generateHotspots makeHotspot_fields)
    with one show False by simp
  qed
next
  assume pair: "cellMembers now st k = [r1, r2] \<and> severity r1 = ''critical''
                  \<and> severity r2 = ''critical''"
  then show score: "severityScore [r1, r2] = Score 8"
    by (simp add: severityScore_def severityWeight_def weights_def)
  from pair have "makeHotspot (k, cellMembers now st k) \<in> set (hotspots (generateHotspots now st))"
    by (intro makeHotspot_in_hotspots) simp
  then show "\<exists>h \<in> set (hotspots (generateHotspots now st)). h_id h = k"
    by (rule rev_bexI) (simp add: makeHotspot_fields)
  show "\<forall>h \<in> set (hotspots (generateHotspots now st)).
                h_id h = k \<longrightarrow> h_severity h = ''high'' \<and> reportCount h = 2"
  proof (intro ballI impI)
    fix h assume "h \<in> set (hotspots (generateHotspots now st))" "h_id h = k"
    then have "h = makeHotspot (k, cellMembers now st k)"
      by (auto simp add: hotspots_generateHotspots makeHotspot_fields)
    with pair score show "h_severity h = ''high'' \<and> reportCount h = 2"
      by (simp add: makeHotspot_fields severityCategory_def)
  qed
qed

theorem hotspot_single_and_critical_pair_witness:
  "length (cellMembers exampleNow exampleServer ''130_802'') = 1
   \<and> ''130_802'' \<notin> h_id ` set (hotspots (generateHotspots exampleNow exampleServer))
   \<and> cellMembers exampleNow exampleServer ''190_728'' = [mumbaiA, mumbaiB]
   \<and> severity mumbaiA = ''critical'' \<and> severity mumbaiB = ''critical''
   \<and> severityScore [mumbaiA, mumbaiB] = Score 8
   \<and> (\<exists>h \<in> set (hotspots (generateHotspots exampleNow exampleServer)).
         h_id h = ''190_728'' \<and> h_severity h = ''high'' \<and> reportCount h = 2)"
proof -
  have s: "severity mumbaiA = ''critical''" "severity mumbaiB = ''critical''"
    by (simp_all add: mumbaiA_def mumbaiB_def)
  have one: "length (cellMembers exampleNow exampleServer ''130_802'') = 1"
    by (simp add: example_members)
  note t1 = hotspot_single_and_critical_pair
    [of exampleNow exampleServer "''130_802''" mumbaiA mumbaiB]
  note t2 = hotspot_single_and_critical_pair
    [of exampleNow exampleServer "''190_728''" mumbaiA mumbaiB]
  from t1 one have "''130_802'' \<notin> h_id ` set (hotspots (generateHotspots exampleNow exampleServer))"
    by blast
  moreover from t2 example_members(1) s
  have "severityScore [mumbaiA, mumbaiB] = Score 8"
    "\<exists>h \<in> set (hotspots (generateHotspots exampleNow exampleServer)).
         h_id h = ''190_728'' \<and> h_severity h = ''high'' \<and> reportCount h = 2"
    by blast+
  ultimately show ?thesis
    using one s example_members(1) by blast
qed

subsection \<open>Malformed fields\<close>




subsection \<open>The cell of a report\<close>

text \<open>
  C7 (as the code has it). \<open>generateHotspots\<close> assigns every in-window report to one
  cluster, the one under its cell key, and the cell is obtained with \<open>Math.floor\<close>, which
  rounds down, not towards zero: two in-window reports are in the same cluster if and only
  if \<open>Math.floor(latitude * 10)\<close> and \<open>Math.floor(longitude * 10)\<close> agree for the two.
\<close>

theorem reports_same_cell_iff:
  assumes "r1 \<in> set (reports st)" "inWindow now r1"
    and "r2 \<in> set (reports st)" "inWindow now r2"
  shows "\<exists>ms. map_of (locationClusters now st) (cellKey r1) = Some ms
           \<and> (\<forall>k ms'. (k, ms') \<in> set (locationClusters now st) \<and> r1 \<in> set ms'
                 \<longrightarrow> k = cellKey r1 \<and> ms' = ms)
           \<and> r1 \<in> set ms
           \<and> (r2 \<in> set ms \<longleftrightarrow> cellIndex r2 = cellIndex r1)"
proof (intro exI conjI allI impI)
  let ?ms = "cellMembers now st (cellKey r1)"
  have r1: "r1 \<in> set ?ms"
    using assms(1,2) by (rule cellMembers_self)
  then show "map_of (locationClusters now st) (cellKey r1) = Some ?ms"
    by (auto simp add: locationClusters_map_of)
  show "r1 \<in> set ?ms" by (rule r1)
  show "r2 \<in> set ?ms \<longleftrightarrow> cellIndex r2 = cellIndex r1"
    using assms(3,4) by (simp add: cellMembers_def cellKey_eq_iff)
  fix k ms' assume "(k, ms') \<in> set (locationClusters now st) \<and> r1 \<in> set ms'"
  then have "ms' = cellMembers now st k" "r1 \<in> set (cellMembers now st k)"
    by (auto simp add: locationClusters_entry)
  then show "k = cellKey r1" "ms' = ?ms"
    by (simp_all add: cellMembers_def)
qed

theorem reports_same_cell_iff_witness:
  "mumbaiA \<in> set (reports exampleServer) \<and> inWindow exampleNow mumbaiA
   \<and> mumbaiB \<in> set (reports exampleServer) \<and> inWindow exampleNow mumbaiB
   \<and> chennai \<in> set (reports exampleServer) \<and> inWindow exampleNow chennai
   \<and> map_of (locationClusters exampleNow exampleServer) ''190_728'' = Some [mumbaiA, mumbaiB]
   \<and> cellIndex mumbaiB = cellIndex mumbaiA
   \<and> cellIndex chennai \<noteq> cellIndex mumbaiA"
proof -
  have m: "mumbaiA \<in> set (reports exampleServer)" "mumbaiB \<in> set (reports exampleServer)"
    "chennai \<in> set (reports exampleServer)"
    by (simp_all add: exampleServer_def)
  have A: "mumbaiA \<in> set [mumbaiA, mumbaiB]" "mumbaiB \<in> set [mumbaiA, mumbaiB]"
    by simp_all
  have C: "chennai \<notin> set [mumbaiA, mumbaiB]"
    by (simp add: chennai_def mumbaiA_def mumbaiB_def)
  have c: "map_of (locationClusters exampleNow exampleServer) ''190_728'' = Some [mumbaiA, mumbaiB]"
    by (simp add: locationClusters_map_of example_members)
  from reports_same_cell_iff [OF m(1) example_windows(1) m(2) example_windows(2)] c A
  have "cellIndex mumbaiB = cellIndex mumbaiA"
    by (simp add: example_keys)
  moreover
  from reports_same_cell_iff [OF m(1) example_windows(1) m(3) example_windows(4)] c C
  have "cellIndex chennai \<noteq> cellIndex mumbaiA"
    by (simp add: example_keys)
  ultimately show ?thesis
    using m c example_windows by simp
qed

text \<open>
  The claim as stated fails for negative coordinates: the latitudes \<open>-1/16\<close> and \<open>1/16\<close>
  times 10 both truncate to 0, and the two reports are put in the cells \<open>-1_0\<close> and \<open>0_0\<close>,
  so that they form no hotspot.
\<close>

theorem truncated_cell_counterexample:
  "spec_cellIndex southOfEquator = spec_cellIndex northOfEquator
   \<and> locationClusters exampleNow equatorServer
        = [(''-1_0'', [southOfEquator]), (''0_0'', [northOfEquator])]
   \<and> hotspots (generateHotspots exampleNow equatorServer) = []"
  by code_simp

section \<open>Properties of the risk assessment\<close>

lemma calculateDistance_same: "calculateDistance p p = 0"
  by (simp add: calculateDistance_def atan2_def)

text \<open>A high storm at the query location weighs 0.8; no hazard, no risk.\<close>

lemma assessRisk_at_storm:
  "factors (assessRisk \<lparr>hazards = [\<lparr>hz_type = ''storm'', hz_severity = ''high'', hz_location = p\<rparr>]\<rparr>
              p timeframe clock)
     = \<lparr>storm = 8 / 10, waves = 0, wind = 0, visibility = 0\<rparr>
   \<and> riskLevel (assessRisk \<lparr>hazards = [\<lparr>hz_type = ''storm'', hz_severity = ''high'', hz_location = p\<rparr>]\<rparr>
              p timeframe clock) = ''high''"
  by (simp add: assessRisk_def addHazard_def calculateDistance_same Let_def)

lemma assessRisk_no_hazard:
  "overallRisk (assessRisk \<lparr>hazards = []\<rparr> p timeframe clock) = 0
   \<and> riskLevel (assessRisk \<lparr>hazards = []\<rparr> p timeframe clock) = ''low''"
  by (simp add: assessRisk_def Let_def)

text \<open>
  C8. The argument \<open>timeframe\<close> of \<open>assessRisk\<close> is inert: for every hazard list and every
  query location, two calls that differ in \<open>timeframe\<close> (and in the time of the call) return
  the same overall risk, risk level, factors and recommendations; at the same time of the
  call they return the same assessment.
\<close>

theorem assessRisk_timeframe_inert:
  "overallRisk (assessRisk api location timeframe1 clock1)
     = overallRisk (assessRisk api location timeframe2 clock2)
   \<and> riskLevel (assessRisk api location timeframe1 clock1)
     = riskLevel (assessRisk api location timeframe2 clock2)
   \<and> factors (assessRisk api location timeframe1 clock1)
     = factors (assessRisk api location timeframe2 clock2)
   \<and> recommendations (assessRisk api location timeframe1 clock1)
     = recommendations (assessRisk api location timeframe2 clock2)
   \<and> assessRisk api location timeframe1 clock = assessRisk api location timeframe2 clock"
  by (simp add: assessRisk_def Let_def)

end
